theory Spec2Isabelle
  imports Main "HOL-Library.AList"
begin

section \<open>JavaScript values, the heap of handles, exceptions\<close>

text \<open>
  The module \<^verbatim>\<open>src/container.js\<close> is strict-mode JavaScript. Its methods take and return
  arbitrary JavaScript values, test them with \<^verbatim>\<open>typeof\<close> and with truthiness, destructure
  them and read their properties, so the model has one type of values. Handles (the
  instances of \<^verbatim>\<open>Container\<close> and \<^verbatim>\<open>ContainerFs\<close>) are mutable objects that refer to each other
  (\<^verbatim>\<open>container.fs.container === container\<close>): they live in a heap and a value refers to
  them by address. Response bodies are immutable trees.

  A number of the model is an integer that a JavaScript number holds exactly (of
  magnitude at most \<open>2\<^sup>5\<^sup>3 - 1\<close>): these print in plain decimal. Fractions, larger
  numbers (which print in exponent form from \<open>10\<^sup>2\<^sup>1\<close> on), \<^verbatim>\<open>NaN\<close> and the infinities
  are outside the model.
\<close>

typedef safe_int = "{n :: int. - 9007199254740991 \<le> n \<and> n \<le> 9007199254740991}"
  by (rule exI [of _ 0]) simp

datatype error = TypeError | ReferenceError string

datatype stream_event = Data string | End

datatype jsval =
    Undefined
  | Null
  | Bool bool
  | Num safe_int
  | Str string
  | Arr "jsval list"
  | Obj "(string \<times> jsval) list"
  | Ref nat
  | Modem
  | Stream "stream_event list"

text \<open>
  \<open>Obj\<close> is a plain object, read with \<open>map_of\<close> (the first binding of a name is the
  property). \<open>Ref a\<close> is the handle at address \<open>a\<close>. \<open>Modem\<close> is the transport object whose
  \<^verbatim>\<open>dial\<close> the methods call; \<open>Stream evs\<close> is a readable stream that will emit the events
  \<open>evs\<close> in that order.
\<close>

type_synonym props = "(string \<times> jsval) list"

type_synonym heap = "props list"

definition bind_err :: "error + 'a \<Rightarrow> ('a \<Rightarrow> error + 'b) \<Rightarrow> error + 'b" where
  "bind_err m f = (case m of Inl e \<Rightarrow> Inl e | Inr v \<Rightarrow> f v)"

text \<open>\<^verbatim>\<open>!v\<close> is \<open>\<not> truthy v\<close>; \<^verbatim>\<open>typeof v === "string"\<close> is \<open>is_string v\<close>.\<close>

fun truthy :: "jsval \<Rightarrow> bool" where
  "truthy Undefined = False"
| "truthy Null = False"
| "truthy (Bool b) = b"
| "truthy (Num n) = (Rep_safe_int n \<noteq> 0)"
| "truthy (Str s) = (s \<noteq> [])"
| "truthy _ = True"

fun is_string :: "jsval \<Rightarrow> bool" where
  "is_string (Str s) = True"
| "is_string _ = False"

definition props_of :: "heap \<Rightarrow> nat \<Rightarrow> props" where
  "props_of h a = (if a < length h then h ! a else [])"

definition own_prop :: "props \<Rightarrow> string \<Rightarrow> jsval" where
  "own_prop ps k = (case map_of ps k of None \<Rightarrow> Undefined | Some v \<Rightarrow> v)"

text \<open>
  A number in decimal, for the indices of an array as property names and for a number in
  a template literal.
\<close>

definition digit_char :: "nat \<Rightarrow> char" where
  "digit_char d = char_of (d + 48)"

fun decimal :: "nat \<Rightarrow> string" where
  "decimal n = (if 10 \<le> n then decimal (n div 10) @ [digit_char (n mod 10)] else [digit_char n])"

definition number_string :: "int \<Rightarrow> string" where
  "number_string i = (if 0 \<le> i then decimal (nat i) else CHR ''-'' # decimal (nat (- i)))"

definition index_props :: "jsval list \<Rightarrow> props" where
  "index_props xs = zip (map decimal [0..<length xs]) xs"

text \<open>
  The own enumerable properties of a value, which \<^verbatim>\<open>Object.assign\<close> copies: those of an
  object, the elements of an array and the characters of a string under their indices,
  nothing for \<^verbatim>\<open>undefined\<close>, \<^verbatim>\<open>null\<close>, booleans and numbers. The own properties of the
  transport and of a stream are internal to them and are not modelled.
\<close>

fun own_props :: "heap \<Rightarrow> jsval \<Rightarrow> props" where
  "own_props h (Obj ps) = ps"
| "own_props h (Ref a) = props_of h a"
| "own_props h (Arr xs) = index_props xs"
| "own_props h (Str s) = index_props (map (\<lambda>c. Str [c]) s)"
| "own_props h _ = []"

text \<open>
  A property read \<^verbatim>\<open>v.k\<close>. It raises a TypeError on \<^verbatim>\<open>undefined\<close> and \<^verbatim>\<open>null\<close>. The source
  reads the properties \<^verbatim>\<open>id\<close>, \<^verbatim>\<open>modem\<close>, \<^verbatim>\<open>container\<close>, \<^verbatim>\<open>Id\<close> and \<^verbatim>\<open>stream\<close> only, none of
  which a built-in prototype defines, so a property that is not an own property reads as
  \<^verbatim>\<open>undefined\<close>.
\<close>

fun get_prop :: "heap \<Rightarrow> jsval \<Rightarrow> string \<Rightarrow> error + jsval" where
  "get_prop h Undefined k = Inl TypeError"
| "get_prop h Null k = Inl TypeError"
| "get_prop h v k = Inr (own_prop (own_props h v) k)"

text \<open>
  The string a template literal \<^verbatim>\<open>${v}\<close> inserts. Handles, the transport and streams
  define no \<^verbatim>\<open>toString\<close> of their own.
\<close>

fun join_comma :: "string list \<Rightarrow> string" where
  "join_comma [] = []"
| "join_comma [s] = s"
| "join_comma (s # t # ss) = s @ '','' @ join_comma (t # ss)"

fun to_string :: "jsval \<Rightarrow> string" where
  "to_string Undefined = ''undefined''"
| "to_string Null = ''null''"
| "to_string (Bool b) = (if b then ''true'' else ''false'')"
| "to_string (Num n) = number_string (Rep_safe_int n)"
| "to_string (Str s) = s"
| "to_string (Arr xs) =
     join_comma (map (\<lambda>x. case x of Undefined \<Rightarrow> [] | Null \<Rightarrow> [] | _ \<Rightarrow> to_string x) xs)"
| "to_string (Obj ps) = ''[object Object]''"
| "to_string (Ref a) = ''[object Object]''"
| "to_string Modem = ''[object Object]''"
| "to_string (Stream evs) = ''[object Object]''"

text \<open>
  Array destructuring \<^verbatim>\<open>[a, b] = v\<close> iterates \<open>v\<close>. Arrays and strings are iterable; a
  plain object, a handle, \<^verbatim>\<open>undefined\<close> and every other value is not, and the assignment
  raises a TypeError before any target is assigned. An element past the end is
  \<^verbatim>\<open>undefined\<close>.
\<close>

definition iterate :: "jsval \<Rightarrow> error + jsval list" where
  "iterate v =
     (case v of Arr xs \<Rightarrow> Inr xs | Str s \<Rightarrow> Inr (map (\<lambda>c. Str [c]) s) | _ \<Rightarrow> Inl TypeError)"

definition nth_or_undefined :: "jsval list \<Rightarrow> nat \<Rightarrow> jsval" where
  "nth_or_undefined xs i = (if i < length xs then xs ! i else Undefined)"

definition destructure2 :: "jsval \<Rightarrow> error + jsval \<times> jsval" where
  "destructure2 v = bind_err (iterate v) (\<lambda>xs. Inr (nth_or_undefined xs 0, nth_or_undefined xs 1))"

section \<open>Argument resolution\<close>

text \<open>
  \<^verbatim>\<open>Container.__processArguments (opts, id)\<close>, lines 765 to 773, on the handle at address
  \<open>this\<close>. It returns the object \<^verbatim>\<open>{ opts, id }\<close>. The parameter \<^verbatim>\<open>id\<close> is \<open>id0\<close>, its
  value after the first statement \<open>id1\<close>, after the second \<open>id2\<close>.
\<close>

definition Container_processArguments :: "heap \<Rightarrow> nat \<Rightarrow> jsval \<Rightarrow> jsval \<Rightarrow> error + jsval" where
  "Container_processArguments h this opts id0 =
     (let id1 = (if is_string opts \<and> \<not> truthy id0 then opts else id0) in
      bind_err (if \<not> truthy opts \<and> \<not> truthy id1 then get_prop h (Ref this) ''id'' else Inr id1)
        (\<lambda>id2. Inr (Obj [(''opts'', opts), (''id'', id2)])))"

text \<open>
  \<^verbatim>\<open>ContainerFs.__processArguments (opts, id)\<close>, lines 101 to 109: the same, with the
  fallback \<^verbatim>\<open>this.container.id\<close>.
\<close>

definition ContainerFs_processArguments :: "heap \<Rightarrow> nat \<Rightarrow> jsval \<Rightarrow> jsval \<Rightarrow> error + jsval" where
  "ContainerFs_processArguments h this opts id0 =
     (let id1 = (if is_string opts \<and> \<not> truthy id0 then opts else id0) in
      bind_err
        (if \<not> truthy opts \<and> \<not> truthy id1
         then bind_err (get_prop h (Ref this) ''container'') (\<lambda>c. get_prop h c ''id'')
         else Inr id1)
        (\<lambda>id2. Inr (Obj [(''opts'', opts), (''id'', id2)])))"

section \<open>Call descriptors, the transport and promises\<close>

text \<open>
  A call descriptor is the object literal \<^verbatim>\<open>{ path, method, options, statusCodes }\<close> each
  method builds (the field \<^verbatim>\<open>method\<close> is \<open>httpMethod\<close> here). The status table is listed in
  the order of the source.
\<close>

record call =
  path :: string
  httpMethod :: string
  options :: jsval
  statusCodes :: "(nat \<times> jsval) list"

text \<open>
  The transport is not part of the module: \<^verbatim>\<open>this.modem.dial(call, callback)\<close> is a
  parameter of the model, the arguments \<^verbatim>\<open>(err, result)\<close> with which it calls the callback
  back, once.
\<close>

type_synonym dial = "call \<Rightarrow> jsval \<times> jsval"

text \<open>
  What a method leaves behind of the promise it returns: the calls made to \<^verbatim>\<open>resolve\<close> and
  \<^verbatim>\<open>reject\<close>, in order. \<open>ExecutorThrew e\<close>: the executor raised before \<^verbatim>\<open>dial\<close> was called
  (the promise is rejected with the exception). \<open>Dialed c r\<close>: \<^verbatim>\<open>dial\<close> was called with the
  descriptor \<open>c\<close>, and its callback either raised (\<open>r = Inl e\<close>, before any call to
  \<^verbatim>\<open>resolve\<close> or \<^verbatim>\<open>reject\<close>) or made the calls \<open>r = Inr ss\<close>.
\<close>

datatype settle = Resolve jsval | Reject jsval

datatype promise = ExecutorThrew error | Dialed call "error + settle list"

fun dialed_calls :: "promise \<Rightarrow> call list" where
  "dialed_calls (ExecutorThrew e) = []"
| "dialed_calls (Dialed c r) = [c]"

text \<open>
  \<^verbatim>\<open>new Promise((resolve, reject) => { this.modem.dial(call, callback) })\<close>. The call raises
  a TypeError when \<^verbatim>\<open>this.modem\<close> is not a transport. The first form is for a callback that
  allocates handles, the second for one that does not.
\<close>

definition new_Promise_heap ::
  "dial \<Rightarrow> heap \<Rightarrow> nat \<Rightarrow> call \<Rightarrow> (jsval \<Rightarrow> jsval \<Rightarrow> heap \<Rightarrow> (error + settle list) \<times> heap)
     \<Rightarrow> promise \<times> heap" where
  "new_Promise_heap dial h this c callback =
     (case own_prop (props_of h this) ''modem'' of
        Modem \<Rightarrow> (case dial c of (err, res) \<Rightarrow>
                    (case callback err res h of (r, h') \<Rightarrow> (Dialed c r, h')))
      | _ \<Rightarrow> (ExecutorThrew TypeError, h))"

definition new_Promise ::
  "dial \<Rightarrow> heap \<Rightarrow> nat \<Rightarrow> call \<Rightarrow> (jsval \<Rightarrow> jsval \<Rightarrow> error + settle list) \<Rightarrow> promise" where
  "new_Promise dial h this c callback =
     (case own_prop (props_of h this) ''modem'' of
        Modem \<Rightarrow> (case dial c of (err, res) \<Rightarrow> Dialed c (callback err res))
      | _ \<Rightarrow> ExecutorThrew TypeError)"

text \<open>
  The two callbacks most methods pass:
  \<^verbatim>\<open>(err, x) => { if (err) return reject(err); resolve(x) }\<close> and
  \<^verbatim>\<open>(err) => { if (err) return reject(err); resolve() }\<close>.
\<close>

definition settle_with :: "jsval \<Rightarrow> jsval \<Rightarrow> error + settle list" where
  "settle_with err x = Inr (if truthy err then [Reject err] else [Resolve x])"

definition settle_void :: "jsval \<Rightarrow> jsval \<Rightarrow> error + settle list" where
  "settle_void err x = Inr (if truthy err then [Reject err] else [Resolve Undefined])"

section \<open>Free identifiers\<close>

text \<open>
  The methods \<^verbatim>\<open>info\<close>, \<^verbatim>\<open>changes\<close>, \<^verbatim>\<open>pause\<close>, \<^verbatim>\<open>unpause\<close> and \<^verbatim>\<open>wait\<close> assign to \<^verbatim>\<open>_\<close> and read
  \<^verbatim>\<open>opts\<close>. Neither is a parameter or a local of these methods (their only parameter is
  \<^verbatim>\<open>id\<close>, their only local \<^verbatim>\<open>call\<close>), and the module declares \<^verbatim>\<open>ContainerFs\<close> and \<^verbatim>\<open>Container\<close>
  only: both names resolve in the global environment, which is a parameter of the model.
  In strict mode, reading and assigning a name that the global environment does not bind
  both raise a ReferenceError.
\<close>

type_synonym genv = "string \<Rightarrow> jsval option"

definition read_free :: "genv \<Rightarrow> string \<Rightarrow> error + jsval" where
  "read_free g x = (case g x of None \<Rightarrow> Inl (ReferenceError x) | Some v \<Rightarrow> Inr v)"

definition assign_free :: "genv \<Rightarrow> string \<Rightarrow> jsval \<Rightarrow> error + genv" where
  "assign_free g x v = (case g x of None \<Rightarrow> Inl (ReferenceError x) | Some old \<Rightarrow> Inr (g(x \<mapsto> v)))"

section \<open>Handles\<close>

text \<open>
  \<^verbatim>\<open>new Container(modem, id)\<close>, lines 113 to 117: the new handle and its \<^verbatim>\<open>ContainerFs\<close>, which
  refers back to it, at the next two addresses of the heap.
\<close>

definition new_Container :: "heap \<Rightarrow> jsval \<Rightarrow> jsval \<Rightarrow> nat \<times> heap" where
  "new_Container h modem id0 =
     (let c = length h; f = Suc (length h) in
      (c, h @ [[(''modem'', modem), (''id'', id0), (''fs'', Ref f)],
               [(''modem'', modem), (''container'', Ref c)]]))"

text \<open>
  The assignment \<^verbatim>\<open>target[k] = v\<close> on an object: an own property is overwritten, a name
  the object does not have is added at the end. The name \<^verbatim>\<open>__proto__\<close> is the exception: an
  object that has no own property of that name inherits it as an accessor, the
  assignment goes to its setter, and no property is added. (The setter replaces the
  prototype of the object when \<open>v\<close> is an object or \<^verbatim>\<open>null\<close>. Prototypes are not modelled:
  the properties the source reads on a handle are own properties that the constructor
  sets, and an operation of the model is the method invoked on a handle that has it.)
\<close>

definition set_prop :: "string \<Rightarrow> jsval \<Rightarrow> props \<Rightarrow> props" where
  "set_prop k v ps =
     (if k = ''__proto__'' \<and> map_of ps k = None then ps else AList.update k v ps)"

text \<open>
  \<^verbatim>\<open>Object.assign(target, src)\<close> for a handle \<open>target\<close>: every own enumerable property of
  \<open>src\<close> is assigned on the target in turn. (\<open>AList.clearjunk\<close> keeps the first binding of
  each name, the one \<open>map_of\<close> reads.)
\<close>

definition set_props :: "props \<Rightarrow> props \<Rightarrow> props" where
  "set_props target src = fold (\<lambda>(k, v). set_prop k v) (AList.clearjunk src) target"

definition Object_assign :: "heap \<Rightarrow> nat \<Rightarrow> jsval \<Rightarrow> heap" where
  "Object_assign h target src = h[target := set_props (props_of h target) (own_props h src)]"

text \<open>
  The two statements \<^verbatim>\<open>let container = new Container(this.modem, i)\<close> and
  \<^verbatim>\<open>Object.assign(container, conf)\<close>, which the callbacks of \<^verbatim>\<open>list\<close>, \<^verbatim>\<open>create\<close> and
  \<^verbatim>\<open>inspect\<close> share (lines 142 and 143, 173 and 174, 204 and 205), on the handle \<open>this\<close>.
\<close>

definition merged_handle :: "heap \<Rightarrow> nat \<Rightarrow> jsval \<Rightarrow> jsval \<Rightarrow> nat \<times> heap" where
  "merged_handle h this i conf =
     (case new_Container h (own_prop (props_of h this) ''modem'') i of
        (container, h1) \<Rightarrow> (container, Object_assign h1 container conf))"

section \<open>The operations of ContainerFs and Container\<close>

text \<open>
  Every operation below is the method of the same name. \<open>X_call\<close> is its descriptor
  \<^verbatim>\<open>const call = { ... }\<close>; \<open>X_rest\<close> is the method from the destructuring assignment of the
  helper's result on; \<open>X\<close> is the method. A method either raises (\<open>Inl\<close>) or returns its
  promise.
\<close>

text \<open>\<^verbatim>\<open>ContainerFs.info (id)\<close>, lines 16 to 36.\<close>

definition ContainerFs_info_call :: "jsval \<Rightarrow> jsval \<Rightarrow> call" where
  "ContainerFs_info_call opts id1 =
     \<lparr>path = ''/containers/'' @ to_string id1 @ ''/archive'',
      httpMethod = ''HEAD'',
      options = opts,
      statusCodes =
        [(200, Bool True), (404, Str ''bad request''),
         (500, Str ''server error'')]\<rparr>"

definition ContainerFs_info_rest ::
  "genv \<Rightarrow> dial \<Rightarrow> heap \<Rightarrow> nat \<Rightarrow> jsval \<Rightarrow> error + genv \<times> promise" where
  "ContainerFs_info_rest g dial h this r =
     bind_err (destructure2 r) (\<lambda>(v0, id1).
     bind_err (assign_free g ''_'' v0) (\<lambda>g1.
     bind_err (read_free g1 ''opts'') (\<lambda>opts.
     Inr (g1, new_Promise dial h this (ContainerFs_info_call opts id1) settle_with))))"

definition ContainerFs_info ::
  "genv \<Rightarrow> dial \<Rightarrow> heap \<Rightarrow> nat \<Rightarrow> jsval \<Rightarrow> error + genv \<times> promise" where
  "ContainerFs_info g dial h this id0 =
     bind_err (ContainerFs_processArguments h this id0 Undefined) (ContainerFs_info_rest g dial h this)"

text \<open>\<^verbatim>\<open>ContainerFs.get (opts, id)\<close>, lines 46 to 67.\<close>

definition ContainerFs_get_call :: "jsval \<Rightarrow> jsval \<Rightarrow> call" where
  "ContainerFs_get_call opts id1 =
     \<lparr>path = ''/containers/'' @ to_string id1 @ ''/archive'',
      httpMethod = ''GET'',
      options = opts,
      statusCodes =
        [(200, Bool True), (400, Str ''bad request''),
         (404, Str ''no such container''),
         (500, Str ''server error'')]\<rparr>"

definition ContainerFs_get_rest :: "dial \<Rightarrow> heap \<Rightarrow> nat \<Rightarrow> jsval \<Rightarrow> error + promise" where
  "ContainerFs_get_rest dial h this r =
     bind_err (destructure2 r) (\<lambda>(opts1, id1).
     Inr (new_Promise dial h this (ContainerFs_get_call opts1 id1) settle_with))"

definition ContainerFs_get :: "dial \<Rightarrow> heap \<Rightarrow> nat \<Rightarrow> jsval \<Rightarrow> jsval \<Rightarrow> error + promise" where
  "ContainerFs_get dial h this opts id0 =
     bind_err (ContainerFs_processArguments h this opts id0) (ContainerFs_get_rest dial h this)"

text \<open>\<^verbatim>\<open>ContainerFs.put (opts, id)\<close>, lines 77 to 99.\<close>

definition ContainerFs_put_call :: "jsval \<Rightarrow> jsval \<Rightarrow> call" where
  "ContainerFs_put_call opts id1 =
     \<lparr>path = ''/containers/'' @ to_string id1 @ ''/archive'',
      httpMethod = ''PUT'',
      options = opts,
      statusCodes =
        [(200, Bool True), (400, Str ''bad request''),
         (403, Str ''permission denied''),
         (404, Str ''no such container''),
         (500, Str ''server error'')]\<rparr>"

definition ContainerFs_put_rest :: "dial \<Rightarrow> heap \<Rightarrow> nat \<Rightarrow> jsval \<Rightarrow> error + promise" where
  "ContainerFs_put_rest dial h this r =
     bind_err (destructure2 r) (\<lambda>(opts1, id1).
     Inr (new_Promise dial h this (ContainerFs_put_call opts1 id1) settle_with))"

definition ContainerFs_put :: "dial \<Rightarrow> heap \<Rightarrow> nat \<Rightarrow> jsval \<Rightarrow> jsval \<Rightarrow> error + promise" where
  "ContainerFs_put dial h this opts id0 =
     bind_err (ContainerFs_processArguments h this opts id0) (ContainerFs_put_rest dial h this)"

text \<open>
  \<^verbatim>\<open>Container.list (opts)\<close>, lines 126 to 147. \<open>list_map\<close> is \<^verbatim>\<open>containers.map\<close> with the
  arrow function of lines 141 to 144: it reads \<^verbatim>\<open>conf.Id\<close>, builds a new handle and merges
  \<open>conf\<close> into it, for each element in turn. It raises where \<^verbatim>\<open>conf.Id\<close> does; the handles
  built before stay in the heap.
\<close>

definition Container_list_call :: "jsval \<Rightarrow> call" where
  "Container_list_call opts =
     \<lparr>path = ''/containers/json'',
      httpMethod = ''GET'',
      options = opts,
      statusCodes =
        [(200, Bool True), (400, Str ''bad request''),
         (500, Str ''server error'')]\<rparr>"

fun list_map :: "heap \<Rightarrow> nat \<Rightarrow> jsval list \<Rightarrow> (error + jsval list) \<times> heap" where
  "list_map h this [] = (Inr [], h)"
| "list_map h this (conf # confs) =
     (case get_prop h conf ''Id'' of
        Inl e \<Rightarrow> (Inl e, h)
      | Inr i \<Rightarrow>
          (case merged_handle h this i conf of
             (container, h1) \<Rightarrow>
               (case list_map h1 this confs of
                  (Inl e, h2) \<Rightarrow> (Inl e, h2)
                | (Inr cs, h2) \<Rightarrow> (Inr (Ref container # cs), h2))))"

definition Container_list_callback ::
  "nat \<Rightarrow> jsval \<Rightarrow> jsval \<Rightarrow> heap \<Rightarrow> (error + settle list) \<times> heap" where
  "Container_list_callback this err containers h =
     (if truthy err then (Inr [Reject err], h)
      else (case containers of
              Arr confs \<Rightarrow>
                (case list_map h this confs of
                   (Inl e, h') \<Rightarrow> (Inl e, h')
                 | (Inr cs, h') \<Rightarrow> (Inr [Resolve (Arr cs)], h'))
            | _ \<Rightarrow> (Inl TypeError, h)))"

definition Container_list :: "dial \<Rightarrow> heap \<Rightarrow> nat \<Rightarrow> jsval \<Rightarrow> promise \<times> heap" where
  "Container_list dial h this opts =
     new_Promise_heap dial h this (Container_list_call opts) (Container_list_callback this)"

text \<open>
  \<^verbatim>\<open>Container.create (opts)\<close>, lines 156 to 177. \<^verbatim>\<open>conf.Id\<close> raises a TypeError on a result
  that is \<^verbatim>\<open>undefined\<close> or \<^verbatim>\<open>null\<close>.
\<close>

definition Container_create_call :: "jsval \<Rightarrow> call" where
  "Container_create_call opts =
     \<lparr>path = ''/containers/json'',
      httpMethod = ''GET'',
      options = opts,
      statusCodes =
        [(200, Bool True), (400, Str ''bad request''),
         (404, Str ''no such container''),
         (406, Str ''impossible to attach''),
         (500, Str ''server error'')]\<rparr>"

definition Container_create_callback ::
  "nat \<Rightarrow> jsval \<Rightarrow> jsval \<Rightarrow> heap \<Rightarrow> (error + settle list) \<times> heap" where
  "Container_create_callback this err conf h =
     (if truthy err then (Inr [Reject err], h)
      else (case get_prop h conf ''Id'' of
              Inl e \<Rightarrow> (Inl e, h)
            | Inr i \<Rightarrow>
                (case merged_handle h this i conf of
                   (container, h') \<Rightarrow> (Inr [Resolve (Ref container)], h'))))"

definition Container_create :: "dial \<Rightarrow> heap \<Rightarrow> nat \<Rightarrow> jsval \<Rightarrow> promise \<times> heap" where
  "Container_create dial h this opts =
     new_Promise_heap dial h this (Container_create_call opts) (Container_create_callback this)"

text \<open>\<^verbatim>\<open>Container.inspect (opts, id)\<close>, lines 187 to 208.\<close>

definition Container_inspect_call :: "jsval \<Rightarrow> jsval \<Rightarrow> call" where
  "Container_inspect_call opts id1 =
     \<lparr>path = ''/containers/'' @ to_string id1 @ ''/json'',
      httpMethod = ''GET'',
      options = opts,
      statusCodes =
        [(200, Bool True), (404, Str ''no such container''),
         (500, Str ''server error'')]\<rparr>"

definition Container_inspect_callback ::
  "nat \<Rightarrow> jsval \<Rightarrow> jsval \<Rightarrow> jsval \<Rightarrow> heap \<Rightarrow> (error + settle list) \<times> heap" where
  "Container_inspect_callback this id1 err conf h =
     (if truthy err then (Inr [Reject err], h)
      else (case merged_handle h this id1 conf of
              (container, h') \<Rightarrow> (Inr [Resolve (Ref container)], h')))"

definition Container_inspect_rest ::
  "dial \<Rightarrow> heap \<Rightarrow> nat \<Rightarrow> jsval \<Rightarrow> (error + promise) \<times> heap" where
  "Container_inspect_rest dial h this r =
     (case destructure2 r of
        Inl e \<Rightarrow> (Inl e, h)
      | Inr (opts1, id1) \<Rightarrow>
          (case new_Promise_heap dial h this (Container_inspect_call opts1 id1)
                  (Container_inspect_callback this id1) of
             (p, h') \<Rightarrow> (Inr p, h')))"

definition Container_inspect ::
  "dial \<Rightarrow> heap \<Rightarrow> nat \<Rightarrow> jsval \<Rightarrow> jsval \<Rightarrow> (error + promise) \<times> heap" where
  "Container_inspect dial h this opts id0 =
     (case Container_processArguments h this opts id0 of
        Inl e \<Rightarrow> (Inl e, h)
      | Inr r \<Rightarrow> Container_inspect_rest dial h this r)"

text \<open>\<^verbatim>\<open>Container.top (opts, id)\<close>, lines 218 to 238.\<close>

definition Container_top_call :: "jsval \<Rightarrow> jsval \<Rightarrow> call" where
  "Container_top_call opts id1 =
     \<lparr>path = ''/containers/'' @ to_string id1 @ ''/top'',
      httpMethod = ''GET'',
      options = opts,
      statusCodes =
        [(200, Bool True), (404, Str ''no such container''),
         (500, Str ''server error'')]\<rparr>"

definition Container_top_rest :: "dial \<Rightarrow> heap \<Rightarrow> nat \<Rightarrow> jsval \<Rightarrow> error + promise" where
  "Container_top_rest dial h this r =
     bind_err (destructure2 r) (\<lambda>(opts1, id1).
     Inr (new_Promise dial h this (Container_top_call opts1 id1) settle_with))"

definition Container_top :: "dial \<Rightarrow> heap \<Rightarrow> nat \<Rightarrow> jsval \<Rightarrow> jsval \<Rightarrow> error + promise" where
  "Container_top dial h this opts id0 =
     bind_err (Container_processArguments h this opts id0) (Container_top_rest dial h this)"

text \<open>\<^verbatim>\<open>Container.logs (opts, id)\<close>, lines 248 to 269.\<close>

definition Container_logs_call :: "jsval \<Rightarrow> jsval \<Rightarrow> call" where
  "Container_logs_call opts id1 =
     \<lparr>path = ''/containers/'' @ to_string id1 @ ''/logs'',
      httpMethod = ''GET'',
      options = opts,
      statusCodes =
        [(101, Bool True), (200, Bool True),
         (404, Str ''no such container''),
         (500, Str ''server error'')]\<rparr>"

definition Container_logs_rest :: "dial \<Rightarrow> heap \<Rightarrow> nat \<Rightarrow> jsval \<Rightarrow> error + promise" where
  "Container_logs_rest dial h this r =
     bind_err (destructure2 r) (\<lambda>(opts1, id1).
     Inr (new_Promise dial h this (Container_logs_call opts1 id1) settle_with))"

definition Container_logs :: "dial \<Rightarrow> heap \<Rightarrow> nat \<Rightarrow> jsval \<Rightarrow> jsval \<Rightarrow> error + promise" where
  "Container_logs dial h this opts id0 =
     bind_err (Container_processArguments h this opts id0) (Container_logs_rest dial h this)"

text \<open>\<^verbatim>\<open>Container.changes (id)\<close>, lines 278 to 298.\<close>

definition Container_changes_call :: "jsval \<Rightarrow> jsval \<Rightarrow> call" where
  "Container_changes_call opts id1 =
     \<lparr>path = ''/containers/'' @ to_string id1 @ ''/changes'',
      httpMethod = ''GET'',
      options = opts,
      statusCodes =
        [(200, Bool True), (404, Str ''no such container''),
         (500, Str ''server error'')]\<rparr>"

definition Container_changes_rest ::
  "genv \<Rightarrow> dial \<Rightarrow> heap \<Rightarrow> nat \<Rightarrow> jsval \<Rightarrow> error + genv \<times> promise" where
  "Container_changes_rest g dial h this r =
     bind_err (destructure2 r) (\<lambda>(v0, id1).
     bind_err (assign_free g ''_'' v0) (\<lambda>g1.
     bind_err (read_free g1 ''opts'') (\<lambda>opts.
     Inr (g1, new_Promise dial h this (Container_changes_call opts id1) settle_with))))"

definition Container_changes ::
  "genv \<Rightarrow> dial \<Rightarrow> heap \<Rightarrow> nat \<Rightarrow> jsval \<Rightarrow> error + genv \<times> promise" where
  "Container_changes g dial h this id0 =
     bind_err (Container_processArguments h this id0 Undefined) (Container_changes_rest g dial h this)"

text \<open>
  \<^verbatim>\<open>Container.export (opts, id)\<close>, lines 308 to 337. \<open>buffer_events\<close> is the two handlers of
  lines 327 to 334 run over the events of the stream: \<^verbatim>\<open>data\<close> appends the chunk's text to
  \<^verbatim>\<open>res\<close>, \<^verbatim>\<open>end\<close> calls \<^verbatim>\<open>resolve(res.join(''))\<close>. Registering a handler raises a TypeError
  on a result that is not a stream.
\<close>

definition Container_export_call :: "jsval \<Rightarrow> jsval \<Rightarrow> call" where
  "Container_export_call opts id1 =
     \<lparr>path = ''/containers/'' @ to_string id1 @ ''/export'',
      httpMethod = ''GET'',
      options = opts,
      statusCodes =
        [(200, Bool True), (404, Str ''no such container''),
         (500, Str ''server error'')]\<rparr>"

fun buffer_events :: "stream_event list \<Rightarrow> string list \<Rightarrow> settle list" where
  "buffer_events [] res = []"
| "buffer_events (Data chunk # evs) res = buffer_events evs (res @ [chunk])"
| "buffer_events (End # evs) res = Resolve (Str (concat res)) # buffer_events evs res"

definition Container_export_callback ::
  "heap \<Rightarrow> jsval \<Rightarrow> jsval \<Rightarrow> jsval \<Rightarrow> error + settle list" where
  "Container_export_callback h opts1 err tarStream =
     (if truthy err then Inr [Reject err]
      else bind_err (get_prop h opts1 ''stream'') (\<lambda>flag.
           if truthy flag then Inr [Resolve tarStream]
           else (case tarStream of
                   Stream evs \<Rightarrow> Inr (buffer_events evs [])
                 | _ \<Rightarrow> Inl TypeError)))"

definition Container_export_rest :: "dial \<Rightarrow> heap \<Rightarrow> nat \<Rightarrow> jsval \<Rightarrow> error + promise" where
  "Container_export_rest dial h this r =
     bind_err (destructure2 r) (\<lambda>(opts1, id1).
     Inr (new_Promise dial h this (Container_export_call opts1 id1)
            (Container_export_callback h opts1)))"

definition Container_export :: "dial \<Rightarrow> heap \<Rightarrow> nat \<Rightarrow> jsval \<Rightarrow> jsval \<Rightarrow> error + promise" where
  "Container_export dial h this opts id0 =
     bind_err (Container_processArguments h this opts id0) (Container_export_rest dial h this)"

text \<open>\<^verbatim>\<open>Container.stats (opts, id)\<close>, lines 347 to 367.\<close>

definition Container_stats_call :: "jsval \<Rightarrow> jsval \<Rightarrow> call" where
  "Container_stats_call opts id1 =
     \<lparr>path = ''/containers/'' @ to_string id1 @ ''/export'',
      httpMethod = ''GET'',
      options = opts,
      statusCodes =
        [(200, Bool True), (404, Str ''no such container''),
         (500, Str ''server error'')]\<rparr>"

definition Container_stats_rest :: "dial \<Rightarrow> heap \<Rightarrow> nat \<Rightarrow> jsval \<Rightarrow> error + promise" where
  "Container_stats_rest dial h this r =
     bind_err (destructure2 r) (\<lambda>(opts1, id1).
     Inr (new_Promise dial h this (Container_stats_call opts1 id1) settle_with))"

definition Container_stats :: "dial \<Rightarrow> heap \<Rightarrow> nat \<Rightarrow> jsval \<Rightarrow> jsval \<Rightarrow> error + promise" where
  "Container_stats dial h this opts id0 =
     bind_err (Container_processArguments h this opts id0) (Container_stats_rest dial h this)"

text \<open>\<^verbatim>\<open>Container.resize (opts, id)\<close>, lines 377 to 397.\<close>

definition Container_resize_call :: "jsval \<Rightarrow> jsval \<Rightarrow> call" where
  "Container_resize_call opts id1 =
     \<lparr>path = ''/containers/'' @ to_string id1 @ ''/resize'',
      httpMethod = ''GET'',
      options = opts,
      statusCodes =
        [(200, Bool True), (404, Str ''no such container''),
         (500, Str ''server error'')]\<rparr>"

definition Container_resize_rest :: "dial \<Rightarrow> heap \<Rightarrow> nat \<Rightarrow> jsval \<Rightarrow> error + promise" where
  "Container_resize_rest dial h this r =
     bind_err (destructure2 r) (\<lambda>(opts1, id1).
     Inr (new_Promise dial h this (Container_resize_call opts1 id1) settle_with))"

definition Container_resize :: "dial \<Rightarrow> heap \<Rightarrow> nat \<Rightarrow> jsval \<Rightarrow> jsval \<Rightarrow> error + promise" where
  "Container_resize dial h this opts id0 =
     bind_err (Container_processArguments h this opts id0) (Container_resize_rest dial h this)"

text \<open>\<^verbatim>\<open>Container.start (opts, id)\<close>, lines 407 to 428.\<close>

definition Container_start_call :: "jsval \<Rightarrow> jsval \<Rightarrow> call" where
  "Container_start_call opts id1 =
     \<lparr>path = ''/containers/'' @ to_string id1 @ ''/start'',
      httpMethod = ''POST'',
      options = opts,
      statusCodes =
        [(204, Bool True), (304, Bool True),
         (404, Str ''no such container''),
         (500, Str ''server error'')]\<rparr>"

definition Container_start_rest :: "dial \<Rightarrow> heap \<Rightarrow> nat \<Rightarrow> jsval \<Rightarrow> error + promise" where
  "Container_start_rest dial h this r =
     bind_err (destructure2 r) (\<lambda>(opts1, id1).
     Inr (new_Promise dial h this (Container_start_call opts1 id1) settle_void))"

definition Container_start :: "dial \<Rightarrow> heap \<Rightarrow> nat \<Rightarrow> jsval \<Rightarrow> jsval \<Rightarrow> error + promise" where
  "Container_start dial h this opts id0 =
     bind_err (Container_processArguments h this opts id0) (Container_start_rest dial h this)"

text \<open>\<^verbatim>\<open>Container.stop (opts, id)\<close>, lines 438 to 459.\<close>

definition Container_stop_call :: "jsval \<Rightarrow> jsval \<Rightarrow> call" where
  "Container_stop_call opts id1 =
     \<lparr>path = ''/containers/'' @ to_string id1 @ ''/stop'',
      httpMethod = ''POST'',
      options = opts,
      statusCodes =
        [(204, Bool True), (304, Bool True),
         (404, Str ''no such container''),
         (500, Str ''server error'')]\<rparr>"

definition Container_stop_rest :: "dial \<Rightarrow> heap \<Rightarrow> nat \<Rightarrow> jsval \<Rightarrow> error + promise" where
  "Container_stop_rest dial h this r =
     bind_err (destructure2 r) (\<lambda>(opts1, id1).
     Inr (new_Promise dial h this (Container_stop_call opts1 id1) settle_void))"

definition Container_stop :: "dial \<Rightarrow> heap \<Rightarrow> nat \<Rightarrow> jsval \<Rightarrow> jsval \<Rightarrow> error + promise" where
  "Container_stop dial h this opts id0 =
     bind_err (Container_processArguments h this opts id0) (Container_stop_rest dial h this)"

text \<open>\<^verbatim>\<open>Container.restart (opts, id)\<close>, lines 469 to 489.\<close>

definition Container_restart_call :: "jsval \<Rightarrow> jsval \<Rightarrow> call" where
  "Container_restart_call opts id1 =
     \<lparr>path = ''/containers/'' @ to_string id1 @ ''/restart'',
      httpMethod = ''POST'',
      options = opts,
      statusCodes =
        [(204, Bool True), (404, Str ''no such container''),
         (500, Str ''server error'')]\<rparr>"

definition Container_restart_rest :: "dial \<Rightarrow> heap \<Rightarrow> nat \<Rightarrow> jsval \<Rightarrow> error + promise" where
  "Container_restart_rest dial h this r =
     bind_err (destructure2 r) (\<lambda>(opts1, id1).
     Inr (new_Promise dial h this (Container_restart_call opts1 id1) settle_void))"

definition Container_restart :: "dial \<Rightarrow> heap \<Rightarrow> nat \<Rightarrow> jsval \<Rightarrow> jsval \<Rightarrow> error + promise" where
  "Container_restart dial h this opts id0 =
     bind_err (Container_processArguments h this opts id0) (Container_restart_rest dial h this)"

text \<open>\<^verbatim>\<open>Container.kill (opts, id)\<close>, lines 499 to 519.\<close>

definition Container_kill_call :: "jsval \<Rightarrow> jsval \<Rightarrow> call" where
  "Container_kill_call opts id1 =
     \<lparr>path = ''/containers/'' @ to_string id1 @ ''/kill'',
      httpMethod = ''POST'',
      options = opts,
      statusCodes =
        [(204, Bool True), (404, Str ''no such container''),
         (500, Str ''server error'')]\<rparr>"

definition Container_kill_rest :: "dial \<Rightarrow> heap \<Rightarrow> nat \<Rightarrow> jsval \<Rightarrow> error + promise" where
  "Container_kill_rest dial h this r =
     bind_err (destructure2 r) (\<lambda>(opts1, id1).
     Inr (new_Promise dial h this (Container_kill_call opts1 id1) settle_void))"

definition Container_kill :: "dial \<Rightarrow> heap \<Rightarrow> nat \<Rightarrow> jsval \<Rightarrow> jsval \<Rightarrow> error + promise" where
  "Container_kill dial h this opts id0 =
     bind_err (Container_processArguments h this opts id0) (Container_kill_rest dial h this)"

text \<open>\<^verbatim>\<open>Container.update (opts, id)\<close>, lines 530 to 551.\<close>

definition Container_update_call :: "jsval \<Rightarrow> jsval \<Rightarrow> call" where
  "Container_update_call opts id1 =
     \<lparr>path = ''/containers/'' @ to_string id1 @ ''/update'',
      httpMethod = ''POST'',
      options = opts,
      statusCodes =
        [(200, Bool True), (400, Str ''bad request''),
         (404, Str ''no such container''),
         (500, Str ''server error'')]\<rparr>"

definition Container_update_rest :: "dial \<Rightarrow> heap \<Rightarrow> nat \<Rightarrow> jsval \<Rightarrow> error + promise" where
  "Container_update_rest dial h this r =
     bind_err (destructure2 r) (\<lambda>(opts1, id1).
     Inr (new_Promise dial h this (Container_update_call opts1 id1) settle_with))"

definition Container_update :: "dial \<Rightarrow> heap \<Rightarrow> nat \<Rightarrow> jsval \<Rightarrow> jsval \<Rightarrow> error + promise" where
  "Container_update dial h this opts id0 =
     bind_err (Container_processArguments h this opts id0) (Container_update_rest dial h this)"

text \<open>\<^verbatim>\<open>Container.rename (opts, id)\<close>, lines 561 to 582.\<close>

definition Container_rename_call :: "jsval \<Rightarrow> jsval \<Rightarrow> call" where
  "Container_rename_call opts id1 =
     \<lparr>path = ''/containers/'' @ to_string id1 @ ''/rename'',
      httpMethod = ''POST'',
      options = opts,
      statusCodes =
        [(204, Bool True), (404, Str ''no such container''),
         (409, Str ''name already taken''),
         (500, Str ''server error'')]\<rparr>"

definition Container_rename_rest :: "dial \<Rightarrow> heap \<Rightarrow> nat \<Rightarrow> jsval \<Rightarrow> error + promise" where
  "Container_rename_rest dial h this r =
     bind_err (destructure2 r) (\<lambda>(opts1, id1).
     Inr (new_Promise dial h this (Container_rename_call opts1 id1) settle_void))"

definition Container_rename :: "dial \<Rightarrow> heap \<Rightarrow> nat \<Rightarrow> jsval \<Rightarrow> jsval \<Rightarrow> error + promise" where
  "Container_rename dial h this opts id0 =
     bind_err (Container_processArguments h this opts id0) (Container_rename_rest dial h this)"

text \<open>\<^verbatim>\<open>Container.pause (id)\<close>, lines 591 to 611.\<close>

definition Container_pause_call :: "jsval \<Rightarrow> jsval \<Rightarrow> call" where
  "Container_pause_call opts id1 =
     \<lparr>path = ''/containers/'' @ to_string id1 @ ''/pause'',
      httpMethod = ''POST'',
      options = opts,
      statusCodes =
        [(204, Bool True), (404, Str ''no such container''),
         (500, Str ''server error'')]\<rparr>"

definition Container_pause_rest ::
  "genv \<Rightarrow> dial \<Rightarrow> heap \<Rightarrow> nat \<Rightarrow> jsval \<Rightarrow> error + genv \<times> promise" where
  "Container_pause_rest g dial h this r =
     bind_err (destructure2 r) (\<lambda>(v0, id1).
     bind_err (assign_free g ''_'' v0) (\<lambda>g1.
     bind_err (read_free g1 ''opts'') (\<lambda>opts.
     Inr (g1, new_Promise dial h this (Container_pause_call opts id1) settle_void))))"

definition Container_pause ::
  "genv \<Rightarrow> dial \<Rightarrow> heap \<Rightarrow> nat \<Rightarrow> jsval \<Rightarrow> error + genv \<times> promise" where
  "Container_pause g dial h this id0 =
     bind_err (Container_processArguments h this id0 Undefined) (Container_pause_rest g dial h this)"

text \<open>\<^verbatim>\<open>Container.unpause (id)\<close>, lines 620 to 640.\<close>

definition Container_unpause_call :: "jsval \<Rightarrow> jsval \<Rightarrow> call" where
  "Container_unpause_call opts id1 =
     \<lparr>path = ''/containers/'' @ to_string id1 @ ''/unpause'',
      httpMethod = ''POST'',
      options = opts,
      statusCodes =
        [(204, Bool True), (404, Str ''no such container''),
         (500, Str ''server error'')]\<rparr>"

definition Container_unpause_rest ::
  "genv \<Rightarrow> dial \<Rightarrow> heap \<Rightarrow> nat \<Rightarrow> jsval \<Rightarrow> error + genv \<times> promise" where
  "Container_unpause_rest g dial h this r =
     bind_err (destructure2 r) (\<lambda>(v0, id1).
     bind_err (assign_free g ''_'' v0) (\<lambda>g1.
     bind_err (read_free g1 ''opts'') (\<lambda>opts.
     Inr (g1, new_Promise dial h this (Container_unpause_call opts id1) settle_void))))"

definition Container_unpause ::
  "genv \<Rightarrow> dial \<Rightarrow> heap \<Rightarrow> nat \<Rightarrow> jsval \<Rightarrow> error + genv \<times> promise" where
  "Container_unpause g dial h this id0 =
     bind_err (Container_processArguments h this id0 Undefined) (Container_unpause_rest g dial h this)"

text \<open>\<^verbatim>\<open>Container.attach (opts, id)\<close>, lines 650 to 672.\<close>

definition Container_attach_call :: "jsval \<Rightarrow> jsval \<Rightarrow> call" where
  "Container_attach_call opts id1 =
     \<lparr>path = ''/containers/'' @ to_string id1 @ ''/attach'',
      httpMethod = ''POST'',
      options = opts,
      statusCodes =
        [(101, Bool True), (200, Bool True), (400, Str ''bad request''),
         (404, Str ''no such container''),
         (500, Str ''server error'')]\<rparr>"

definition Container_attach_rest :: "dial \<Rightarrow> heap \<Rightarrow> nat \<Rightarrow> jsval \<Rightarrow> error + promise" where
  "Container_attach_rest dial h this r =
     bind_err (destructure2 r) (\<lambda>(opts1, id1).
     Inr (new_Promise dial h this (Container_attach_call opts1 id1) settle_with))"

definition Container_attach :: "dial \<Rightarrow> heap \<Rightarrow> nat \<Rightarrow> jsval \<Rightarrow> jsval \<Rightarrow> error + promise" where
  "Container_attach dial h this opts id0 =
     bind_err (Container_processArguments h this opts id0) (Container_attach_rest dial h this)"

text \<open>\<^verbatim>\<open>Container.wsattach (opts, id)\<close>, lines 682 to 703.\<close>

definition Container_wsattach_call :: "jsval \<Rightarrow> jsval \<Rightarrow> call" where
  "Container_wsattach_call opts id1 =
     \<lparr>path = ''/containers/'' @ to_string id1 @ ''/attach/ws'',
      httpMethod = ''GET'',
      options = opts,
      statusCodes =
        [(200, Bool True), (400, Str ''bad request''),
         (404, Str ''no such container''),
         (500, Str ''server error'')]\<rparr>"

definition Container_wsattach_rest :: "dial \<Rightarrow> heap \<Rightarrow> nat \<Rightarrow> jsval \<Rightarrow> error + promise" where
  "Container_wsattach_rest dial h this r =
     bind_err (destructure2 r) (\<lambda>(opts1, id1).
     Inr (new_Promise dial h this (Container_wsattach_call opts1 id1) settle_with))"

definition Container_wsattach :: "dial \<Rightarrow> heap \<Rightarrow> nat \<Rightarrow> jsval \<Rightarrow> jsval \<Rightarrow> error + promise" where
  "Container_wsattach dial h this opts id0 =
     bind_err (Container_processArguments h this opts id0) (Container_wsattach_rest dial h this)"

text \<open>\<^verbatim>\<open>Container.wait (id)\<close>, lines 712 to 732.\<close>

definition Container_wait_call :: "jsval \<Rightarrow> jsval \<Rightarrow> call" where
  "Container_wait_call opts id1 =
     \<lparr>path = ''/containers/'' @ to_string id1 @ ''/wait'',
      httpMethod = ''POST'',
      options = opts,
      statusCodes =
        [(200, Bool True), (404, Str ''no such container''),
         (500, Str ''server error'')]\<rparr>"

definition Container_wait_rest ::
  "genv \<Rightarrow> dial \<Rightarrow> heap \<Rightarrow> nat \<Rightarrow> jsval \<Rightarrow> error + genv \<times> promise" where
  "Container_wait_rest g dial h this r =
     bind_err (destructure2 r) (\<lambda>(v0, id1).
     bind_err (assign_free g ''_'' v0) (\<lambda>g1.
     bind_err (read_free g1 ''opts'') (\<lambda>opts.
     Inr (g1, new_Promise dial h this (Container_wait_call opts id1) settle_with))))"

definition Container_wait ::
  "genv \<Rightarrow> dial \<Rightarrow> heap \<Rightarrow> nat \<Rightarrow> jsval \<Rightarrow> error + genv \<times> promise" where
  "Container_wait g dial h this id0 =
     bind_err (Container_processArguments h this id0 Undefined) (Container_wait_rest g dial h this)"

text \<open>\<^verbatim>\<open>Container.delete (opts, id)\<close>, lines 742 to 763.\<close>

definition Container_delete_call :: "jsval \<Rightarrow> jsval \<Rightarrow> call" where
  "Container_delete_call opts id1 =
     \<lparr>path = ''/containers/'' @ to_string id1,
      httpMethod = ''DELETE'',
      options = opts,
      statusCodes =
        [(204, Bool True), (400, Str ''bad request''),
         (404, Str ''no such container''),
         (500, Str ''server error'')]\<rparr>"

definition Container_delete_rest :: "dial \<Rightarrow> heap \<Rightarrow> nat \<Rightarrow> jsval \<Rightarrow> error + promise" where
  "Container_delete_rest dial h this r =
     bind_err (destructure2 r) (\<lambda>(opts1, id1).
     Inr (new_Promise dial h this (Container_delete_call opts1 id1) settle_void))"

definition Container_delete :: "dial \<Rightarrow> heap \<Rightarrow> nat \<Rightarrow> jsval \<Rightarrow> jsval \<Rightarrow> error + promise" where
  "Container_delete dial h this opts id0 =
     bind_err (Container_processArguments h this opts id0) (Container_delete_rest dial h this)"

section \<open>Concrete inputs\<close>

text \<open>
  The heap after \<^verbatim>\<open>new Container(modem, 'c0')\<close>: the handle at address 0, its
  \<^verbatim>\<open>ContainerFs\<close> at address 1. A global environment that binds no name. Transports that
  report success: with no result, with the body of a created container, with a body
  that also has an attribute \<^verbatim>\<open>id\<close>, with a body that has an attribute \<^verbatim>\<open>__proto__\<close>, and
  with a stream of two chunks that then ends.
\<close>

definition one_container :: heap where
  "one_container =
     [[(''modem'', Modem), (''id'', Str ''c0''), (''fs'', Ref 1)],
      [(''modem'', Modem), (''container'', Ref 0)]]"

definition no_globals :: genv where
  "no_globals x = None"

definition dial_success :: dial where
  "dial_success c = (Null, Undefined)"

definition dial_created :: dial where
  "dial_created c = (Null, Obj [(''Id'', Str ''abc''), (''Warnings'', Arr [])])"


definition dial_proto :: dial where
  "dial_proto c = (Null, Obj [(''Id'', Str ''abc''), (''__proto__'', Str ''x'')])"

definition dial_stream :: dial where
  "dial_stream c = (Null, Stream [Data ''ab'', Data ''cd'', End])"

section \<open>Basic facts\<close>

lemma bind_err_simps:
  "bind_err (Inl e) f = Inl e"
  "bind_err (Inr v) f = f v"
  by (simp_all add: bind_err_def)

lemma destructure2_Obj: "destructure2 (Obj ps) = Inl TypeError"
  by (simp add: destructure2_def iterate_def bind_err_def)

lemma destructure2_Arr2: "destructure2 (Arr [a, b]) = Inr (a, b)"
  by (simp add: destructure2_def iterate_def bind_err_def nth_or_undefined_def)

lemma get_prop_cases:
  "get_prop h v k = Inl TypeError \<or> get_prop h v k = Inr (own_prop (own_props h v) k)"
  by (cases v) simp_all




section \<open>The helper returns a record, the methods destructure an array\<close>

text \<open>
  \<^verbatim>\<open>__processArguments\<close> ends with \<^verbatim>\<open>return { opts, id }\<close>: whenever it returns, it returns a
  plain object. (The helper of \<^verbatim>\<open>ContainerFs\<close> raises a TypeError instead when
  \<^verbatim>\<open>this.container\<close> is \<^verbatim>\<open>undefined\<close> or \<^verbatim>\<open>null\<close> and the fallback is taken.)
\<close>

lemma Container_processArguments_record:
  "\<exists>i. Container_processArguments h this opts id0 = Inr (Obj [(''opts'', opts), (''id'', i)])"
  by (simp add: Container_processArguments_def Let_def bind_err_def)

lemma ContainerFs_processArguments_record:
  "ContainerFs_processArguments h this opts id0 = Inl TypeError \<or>
   (\<exists>i. ContainerFs_processArguments h this opts id0 = Inr (Obj [(''opts'', opts), (''id'', i)]))"
proof -
  let ?c = "own_prop (props_of h this) ''container''"
  from get_prop_cases [of h ?c "''id''"]
  show ?thesis
    by (auto simp: ContainerFs_processArguments_def Let_def bind_err_def)
qed

lemma Container_bind_TypeError:
  assumes "\<And>ps. rest (Obj ps) = Inl TypeError"
  shows "bind_err (Container_processArguments h this opts id0) rest = Inl TypeError"
  using Container_processArguments_record [of h this opts id0] assms
  by (auto simp: bind_err_def)

lemma ContainerFs_bind_TypeError:
  assumes "\<And>ps. rest (Obj ps) = Inl TypeError"
  shows "bind_err (ContainerFs_processArguments h this opts id0) rest = Inl TypeError"
  using ContainerFs_processArguments_record [of h this opts id0] assms
  by (auto simp: bind_err_def)

lemma Container_inspect_rest_Obj:
  "Container_inspect_rest dial h this (Obj ps) = (Inl TypeError, h)"
  by (simp add: Container_inspect_rest_def destructure2_Obj)

lemma Container_inspect_TypeError:
  "Container_inspect dial h this opts id0 = (Inl TypeError, h)"
  using Container_processArguments_record [of h this opts id0]
  by (auto simp: Container_inspect_def Container_inspect_rest_Obj)

lemma ContainerFs_info_rest_Obj: "ContainerFs_info_rest g dial h this (Obj ps) = Inl TypeError"
  by (simp add: ContainerFs_info_rest_def destructure2_Obj bind_err_simps)

lemma ContainerFs_info_TypeError: "ContainerFs_info g dial h this id0 = Inl TypeError"
  unfolding ContainerFs_info_def by (rule ContainerFs_bind_TypeError) (rule ContainerFs_info_rest_Obj)

lemma ContainerFs_get_rest_Obj: "ContainerFs_get_rest dial h this (Obj ps) = Inl TypeError"
  by (simp add: ContainerFs_get_rest_def destructure2_Obj bind_err_simps)

lemma ContainerFs_get_TypeError: "ContainerFs_get dial h this opts id0 = Inl TypeError"
  unfolding ContainerFs_get_def by (rule ContainerFs_bind_TypeError) (rule ContainerFs_get_rest_Obj)

lemma ContainerFs_put_rest_Obj: "ContainerFs_put_rest dial h this (Obj ps) = Inl TypeError"
  by (simp add: ContainerFs_put_rest_def destructure2_Obj bind_err_simps)

lemma ContainerFs_put_TypeError: "ContainerFs_put dial h this opts id0 = Inl TypeError"
  unfolding ContainerFs_put_def by (rule ContainerFs_bind_TypeError) (rule ContainerFs_put_rest_Obj)

lemma Container_top_rest_Obj: "Container_top_rest dial h this (Obj ps) = Inl TypeError"
  by (simp add: Container_top_rest_def destructure2_Obj bind_err_simps)

lemma Container_top_TypeError: "Container_top dial h this opts id0 = Inl TypeError"
  unfolding Container_top_def by (rule Container_bind_TypeError) (rule Container_top_rest_Obj)

lemma Container_logs_rest_Obj: "Container_logs_rest dial h this (Obj ps) = Inl TypeError"
  by (simp add: Container_logs_rest_def destructure2_Obj bind_err_simps)

lemma Container_logs_TypeError: "Container_logs dial h this opts id0 = Inl TypeError"
  unfolding Container_logs_def by (rule Container_bind_TypeError) (rule Container_logs_rest_Obj)

lemma Container_changes_rest_Obj: "Container_changes_rest g dial h this (Obj ps) = Inl TypeError"
  by (simp add: Container_changes_rest_def destructure2_Obj bind_err_simps)

lemma Container_changes_TypeError: "Container_changes g dial h this id0 = Inl TypeError"
  unfolding Container_changes_def by (rule Container_bind_TypeError) (rule Container_changes_rest_Obj)

lemma Container_export_rest_Obj: "Container_export_rest dial h this (Obj ps) = Inl TypeError"
  by (simp add: Container_export_rest_def destructure2_Obj bind_err_simps)

lemma Container_export_TypeError: "Container_export dial h this opts id0 = Inl TypeError"
  unfolding Container_export_def by (rule Container_bind_TypeError) (rule Container_export_rest_Obj)

lemma Container_stats_rest_Obj: "Container_stats_rest dial h this (Obj ps) = Inl TypeError"
  by (simp add: Container_stats_rest_def destructure2_Obj bind_err_simps)

lemma Container_stats_TypeError: "Container_stats dial h this opts id0 = Inl TypeError"
  unfolding Container_stats_def by (rule Container_bind_TypeError) (rule Container_stats_rest_Obj)

lemma Container_resize_rest_Obj: "Container_resize_rest dial h this (Obj ps) = Inl TypeError"
  by (simp add: Container_resize_rest_def destructure2_Obj bind_err_simps)

lemma Container_resize_TypeError: "Container_resize dial h this opts id0 = Inl TypeError"
  unfolding Container_resize_def by (rule Container_bind_TypeError) (rule Container_resize_rest_Obj)

lemma Container_start_rest_Obj: "Container_start_rest dial h this (Obj ps) = Inl TypeError"
  by (simp add: Container_start_rest_def destructure2_Obj bind_err_simps)

lemma Container_start_TypeError: "Container_start dial h this opts id0 = Inl TypeError"
  unfolding Container_start_def by (rule Container_bind_TypeError) (rule Container_start_rest_Obj)

lemma Container_stop_rest_Obj: "Container_stop_rest dial h this (Obj ps) = Inl TypeError"
  by (simp add: Container_stop_rest_def destructure2_Obj bind_err_simps)

lemma Container_stop_TypeError: "Container_stop dial h this opts id0 = Inl TypeError"
  unfolding Container_stop_def by (rule Container_bind_TypeError) (rule Container_stop_rest_Obj)

lemma Container_restart_rest_Obj: "Container_restart_rest dial h this (Obj ps) = Inl TypeError"
  by (simp add: Container_restart_rest_def destructure2_Obj bind_err_simps)

lemma Container_restart_TypeError: "Container_restart dial h this opts id0 = Inl TypeError"
  unfolding Container_restart_def by (rule Container_bind_TypeError) (rule Container_restart_rest_Obj)

lemma Container_kill_rest_Obj: "Container_kill_rest dial h this (Obj ps) = Inl TypeError"
  by (simp add: Container_kill_rest_def destructure2_Obj bind_err_simps)

lemma Container_kill_TypeError: "Container_kill dial h this opts id0 = Inl TypeError"
  unfolding Container_kill_def by (rule Container_bind_TypeError) (rule Container_kill_rest_Obj)

lemma Container_update_rest_Obj: "Container_update_rest dial h this (Obj ps) = Inl TypeError"
  by (simp add: Container_update_rest_def destructure2_Obj bind_err_simps)

lemma Container_update_TypeError: "Container_update dial h this opts id0 = Inl TypeError"
  unfolding Container_update_def by (rule Container_bind_TypeError) (rule Container_update_rest_Obj)

lemma Container_rename_rest_Obj: "Container_rename_rest dial h this (Obj ps) = Inl TypeError"
  by (simp add: Container_rename_rest_def destructure2_Obj bind_err_simps)

lemma Container_rename_TypeError: "Container_rename dial h this opts id0 = Inl TypeError"
  unfolding Container_rename_def by (rule Container_bind_TypeError) (rule Container_rename_rest_Obj)

lemma Container_pause_rest_Obj: "Container_pause_rest g dial h this (Obj ps) = Inl TypeError"
  by (simp add: Container_pause_rest_def destructure2_Obj bind_err_simps)

lemma Container_pause_TypeError: "Container_pause g dial h this id0 = Inl TypeError"
  unfolding Container_pause_def by (rule Container_bind_TypeError) (rule Container_pause_rest_Obj)

lemma Container_unpause_rest_Obj: "Container_unpause_rest g dial h this (Obj ps) = Inl TypeError"
  by (simp add: Container_unpause_rest_def destructure2_Obj bind_err_simps)

lemma Container_unpause_TypeError: "Container_unpause g dial h this id0 = Inl TypeError"
  unfolding Container_unpause_def by (rule Container_bind_TypeError) (rule Container_unpause_rest_Obj)

lemma Container_attach_rest_Obj: "Container_attach_rest dial h this (Obj ps) = Inl TypeError"
  by (simp add: Container_attach_rest_def destructure2_Obj bind_err_simps)

lemma Container_attach_TypeError: "Container_attach dial h this opts id0 = Inl TypeError"
  unfolding Container_attach_def by (rule Container_bind_TypeError) (rule Container_attach_rest_Obj)

lemma Container_wsattach_rest_Obj: "Container_wsattach_rest dial h this (Obj ps) = Inl TypeError"
  by (simp add: Container_wsattach_rest_def destructure2_Obj bind_err_simps)

lemma Container_wsattach_TypeError: "Container_wsattach dial h this opts id0 = Inl TypeError"
  unfolding Container_wsattach_def by (rule Container_bind_TypeError) (rule Container_wsattach_rest_Obj)

lemma Container_wait_rest_Obj: "Container_wait_rest g dial h this (Obj ps) = Inl TypeError"
  by (simp add: Container_wait_rest_def destructure2_Obj bind_err_simps)

lemma Container_wait_TypeError: "Container_wait g dial h this id0 = Inl TypeError"
  unfolding Container_wait_def by (rule Container_bind_TypeError) (rule Container_wait_rest_Obj)

lemma Container_delete_rest_Obj: "Container_delete_rest dial h this (Obj ps) = Inl TypeError"
  by (simp add: Container_delete_rest_def destructure2_Obj bind_err_simps)

lemma Container_delete_TypeError: "Container_delete dial h this opts id0 = Inl TypeError"
  unfolding Container_delete_def by (rule Container_bind_TypeError) (rule Container_delete_rest_Obj)

text \<open>
  Claim C2. Every operation that resolves its arguments with \<^verbatim>\<open>__processArguments\<close>
  (\<^verbatim>\<open>inspect\<close>, \<^verbatim>\<open>top\<close>, \<^verbatim>\<open>logs\<close>, \<^verbatim>\<open>export\<close>, \<^verbatim>\<open>stats\<close>, \<^verbatim>\<open>resize\<close>, \<^verbatim>\<open>start\<close>, \<^verbatim>\<open>stop\<close>, \<^verbatim>\<open>restart\<close>,
  \<^verbatim>\<open>kill\<close>, \<^verbatim>\<open>update\<close>, \<^verbatim>\<open>rename\<close>, \<^verbatim>\<open>attach\<close>, \<^verbatim>\<open>wsattach\<close>, \<^verbatim>\<open>delete\<close>, \<^verbatim>\<open>fs.get\<close>, \<^verbatim>\<open>fs.put\<close>, and the
  one-argument \<^verbatim>\<open>fs.info\<close>, \<^verbatim>\<open>changes\<close>, \<^verbatim>\<open>pause\<close>, \<^verbatim>\<open>unpause\<close>, \<^verbatim>\<open>wait\<close>) raises a TypeError on every
  invocation, whatever the arguments, the handle, the heap, the global environment and the
  transport: the helper returns a record and the method destructures it as an array. The
  method raises before it builds its descriptor, so it returns no promise and \<^verbatim>\<open>dial\<close> is
  never called (a call to \<^verbatim>\<open>dial\<close> shows as \<open>Inr\<close> of a promise \<open>Dialed c r\<close>).
\<close>

theorem operations_raise_TypeError_before_dial:
  "Container_inspect dial h this opts id0 = (Inl TypeError, h) \<and>
   Container_top dial h this opts id0 = Inl TypeError \<and>
   Container_logs dial h this opts id0 = Inl TypeError \<and>
   Container_export dial h this opts id0 = Inl TypeError \<and>
   Container_stats dial h this opts id0 = Inl TypeError \<and>
   Container_resize dial h this opts id0 = Inl TypeError \<and>
   Container_start dial h this opts id0 = Inl TypeError \<and>
   Container_stop dial h this opts id0 = Inl TypeError \<and>
   Container_restart dial h this opts id0 = Inl TypeError \<and>
   Container_kill dial h this opts id0 = Inl TypeError \<and>
   Container_update dial h this opts id0 = Inl TypeError \<and>
   Container_rename dial h this opts id0 = Inl TypeError \<and>
   Container_attach dial h this opts id0 = Inl TypeError \<and>
   Container_wsattach dial h this opts id0 = Inl TypeError \<and>
   Container_delete dial h this opts id0 = Inl TypeError \<and>
   ContainerFs_get dial h this opts id0 = Inl TypeError \<and>
   ContainerFs_put dial h this opts id0 = Inl TypeError \<and>
   ContainerFs_info g dial h this id0 = Inl TypeError \<and>
   Container_changes g dial h this id0 = Inl TypeError \<and>
   Container_pause g dial h this id0 = Inl TypeError \<and>
   Container_unpause g dial h this id0 = Inl TypeError \<and>
   Container_wait g dial h this id0 = Inl TypeError"
  by (simp only: Container_inspect_TypeError Container_top_TypeError
      Container_logs_TypeError Container_export_TypeError Container_stats_TypeError
      Container_resize_TypeError Container_start_TypeError Container_stop_TypeError
      Container_restart_TypeError Container_kill_TypeError Container_update_TypeError
      Container_rename_TypeError Container_attach_TypeError Container_wsattach_TypeError
      Container_delete_TypeError ContainerFs_get_TypeError ContainerFs_put_TypeError
      ContainerFs_info_TypeError Container_changes_TypeError Container_pause_TypeError
      Container_unpause_TypeError Container_wait_TypeError simp_thms)

section \<open>Facts about the concrete inputs\<close>

lemma one_container_new: "one_container = snd (new_Container [] Modem (Str ''c0''))"
  by (simp add: one_container_def new_Container_def)

lemma one_container_props:
  "own_prop (props_of one_container 0) ''id'' = Str ''c0''"
  "own_prop (props_of one_container 0) ''modem'' = Modem"
  "own_prop (props_of one_container 1) ''container'' = Ref 0"
  "own_prop (props_of one_container 1) ''modem'' = Modem"
  by (simp_all add: one_container_def props_of_def own_prop_def)

section \<open>The argument-resolution law\<close>

text \<open>
  Claim C1, as the code has it. With a non-empty string \<open>s\<close> as the first argument and
  the second absent, both helpers resolve the identifier to \<open>s\<close>, and the resolved
  \<^verbatim>\<open>opts\<close> is the string \<open>s\<close> itself: the helper never empties or clears it. With both
  arguments absent, the identifier is the stored one (\<^verbatim>\<open>this.id\<close>, and \<^verbatim>\<open>this.container.id\<close>
  for the \<^verbatim>\<open>ContainerFs\<close> \<open>f\<close> of the handle \<open>this\<close>) and \<^verbatim>\<open>opts\<close> stays \<^verbatim>\<open>undefined\<close>.
\<close>

theorem processArguments_string_or_absent:
  assumes "s \<noteq> []" and "own_prop (props_of h f) ''container'' = Ref this"
  shows "Container_processArguments h this (Str s) Undefined
           = Inr (Obj [(''opts'', Str s), (''id'', Str s)]) \<and>
         ContainerFs_processArguments h f (Str s) Undefined
           = Inr (Obj [(''opts'', Str s), (''id'', Str s)]) \<and>
         Container_processArguments h this Undefined Undefined
           = Inr (Obj [(''opts'', Undefined), (''id'', own_prop (props_of h this) ''id'')]) \<and>
         ContainerFs_processArguments h f Undefined Undefined
           = Inr (Obj [(''opts'', Undefined), (''id'', own_prop (props_of h this) ''id'')])"
  using assms
  by (simp add: Container_processArguments_def ContainerFs_processArguments_def bind_err_simps)

text \<open>The law at \<^verbatim>\<open>'abc'\<close> on the handle \<^verbatim>\<open>'c0'\<close>.\<close>

theorem processArguments_string_or_absent_witness:
  "''abc'' \<noteq> [] \<and> own_prop (props_of one_container 1) ''container'' = Ref 0 \<and>
   Container_processArguments one_container 0 (Str ''abc'') Undefined
     = Inr (Obj [(''opts'', Str ''abc''), (''id'', Str ''abc'')]) \<and>
   ContainerFs_processArguments one_container 1 (Str ''abc'') Undefined
     = Inr (Obj [(''opts'', Str ''abc''), (''id'', Str ''abc'')]) \<and>
   Container_processArguments one_container 0 Undefined Undefined
     = Inr (Obj [(''opts'', Undefined), (''id'', Str ''c0'')]) \<and>
   ContainerFs_processArguments one_container 1 Undefined Undefined
     = Inr (Obj [(''opts'', Undefined), (''id'', Str ''c0'')])"
proof -
  have a: "''abc'' \<noteq> []" by simp
  have b: "own_prop (props_of one_container 1) ''container'' = Ref 0"
    by (rule one_container_props)
  show ?thesis
    using processArguments_string_or_absent [OF a b] a b one_container_props(1) by simp
qed

text \<open>
  Claim C1 as stated fails: for the first argument \<^verbatim>\<open>'abc'\<close> the resolved \<^verbatim>\<open>opts\<close> is
  \<^verbatim>\<open>'abc'\<close>, neither absent nor empty; and for the empty string as first argument the
  resolved identifier is the stored \<^verbatim>\<open>'c0'\<close>, not the first argument.
\<close>

theorem processArguments_opts_not_cleared:
  "Container_processArguments one_container 0 (Str ''abc'') Undefined
     = Inr (Obj [(''opts'', Str ''abc''), (''id'', Str ''abc'')]) \<and>
   Container_processArguments one_container 0 (Str []) Undefined
     = Inr (Obj [(''opts'', Str []), (''id'', Str ''c0'')])"
  by (simp add: Container_processArguments_def bind_err_simps one_container_def props_of_def
      own_prop_def)

section \<open>The free names of the one-argument operations\<close>

text \<open>
  What the statements after the helper call would do, had the helper returned an array:
  the assignment to \<^verbatim>\<open>_\<close> raises a ReferenceError where the global environment does not
  bind \<^verbatim>\<open>_\<close>, and otherwise the read of \<^verbatim>\<open>opts\<close> does where it does not bind \<^verbatim>\<open>opts\<close>.
\<close>

lemma rest_free_names:
  assumes "g ''_'' = None \<or> g ''opts'' = None"
  shows "bind_err (assign_free g ''_'' v0) (\<lambda>g1. bind_err (read_free g1 ''opts'') (k g1))
           = Inl (ReferenceError (if g ''_'' = None then ''_'' else ''opts''))"
  using assms
  by (cases "g ''_''") (auto simp: assign_free_def read_free_def bind_err_def)

lemma ContainerFs_info_rest_Arr:
  assumes "g ''_'' = None \<or> g ''opts'' = None"
  shows "ContainerFs_info_rest g dial h this (Arr [v0, v1])
           = Inl (ReferenceError (if g ''_'' = None then ''_'' else ''opts''))"
  unfolding ContainerFs_info_rest_def destructure2_Arr2 bind_err_simps prod.case
  by (rule rest_free_names [OF assms])

lemma Container_changes_rest_Arr:
  assumes "g ''_'' = None \<or> g ''opts'' = None"
  shows "Container_changes_rest g dial h this (Arr [v0, v1])
           = Inl (ReferenceError (if g ''_'' = None then ''_'' else ''opts''))"
  unfolding Container_changes_rest_def destructure2_Arr2 bind_err_simps prod.case
  by (rule rest_free_names [OF assms])

lemma Container_pause_rest_Arr:
  assumes "g ''_'' = None \<or> g ''opts'' = None"
  shows "Container_pause_rest g dial h this (Arr [v0, v1])
           = Inl (ReferenceError (if g ''_'' = None then ''_'' else ''opts''))"
  unfolding Container_pause_rest_def destructure2_Arr2 bind_err_simps prod.case
  by (rule rest_free_names [OF assms])

lemma Container_unpause_rest_Arr:
  assumes "g ''_'' = None \<or> g ''opts'' = None"
  shows "Container_unpause_rest g dial h this (Arr [v0, v1])
           = Inl (ReferenceError (if g ''_'' = None then ''_'' else ''opts''))"
  unfolding Container_unpause_rest_def destructure2_Arr2 bind_err_simps prod.case
  by (rule rest_free_names [OF assms])

lemma Container_wait_rest_Arr:
  assumes "g ''_'' = None \<or> g ''opts'' = None"
  shows "Container_wait_rest g dial h this (Arr [v0, v1])
           = Inl (ReferenceError (if g ''_'' = None then ''_'' else ''opts''))"
  unfolding Container_wait_rest_def destructure2_Arr2 bind_err_simps prod.case
  by (rule rest_free_names [OF assms])

text \<open>
  Claim C3 at the failing input: \<^verbatim>\<open>fs.info()\<close> on the \<^verbatim>\<open>ContainerFs\<close> of the handle \<^verbatim>\<open>'c0'\<close>,
  with no global named \<^verbatim>\<open>_\<close> or \<^verbatim>\<open>opts\<close>. The claim has every invocation reference an
  unbound name, which raises a ReferenceError in strict mode (the lemmas above: that is
  what the statements after the helper call do on an array). The method raises the
  TypeError of the destructuring instead, before either name is evaluated.
\<close>

theorem info_raises_TypeError_not_ReferenceError:
  "ContainerFs_info no_globals dial_success one_container 1 Undefined = Inl TypeError \<and>
   ContainerFs_info no_globals dial_success one_container 1 Undefined
     \<noteq> Inl (ReferenceError ''_'') \<and>
   ContainerFs_info no_globals dial_success one_container 1 Undefined
     \<noteq> Inl (ReferenceError ''opts'') \<and>
   ContainerFs_info_rest no_globals dial_success one_container 1 (Arr [Undefined, Str ''c0''])
     = Inl (ReferenceError ''_'')"
proof -
  have n: "no_globals ''_'' = None"
    by (simp add: no_globals_def)
  then have "no_globals ''_'' = None \<or> no_globals ''opts'' = None"
    by simp
  from ContainerFs_info_rest_Arr [OF this, of dial_success one_container 1 Undefined "Str ''c0''"] n
  have "ContainerFs_info_rest no_globals dial_success one_container 1
          (Arr [Undefined, Str ''c0'']) = Inl (ReferenceError ''_'')"
    by simp
  then show ?thesis
    by (simp add: ContainerFs_info_TypeError)
qed

section \<open>One resolution for every operation\<close>

text \<open>
  On a handle \<open>c\<close> and on its \<^verbatim>\<open>ContainerFs\<close> \<open>f\<close> (\<^verbatim>\<open>f.container\<close> is \<open>c\<close>), the helper of
  \<^verbatim>\<open>ContainerFs\<close> computes what the helper of \<^verbatim>\<open>Container\<close> computes on \<open>c\<close>, for all
  arguments.
\<close>

lemma ContainerFs_processArguments_eq:
  assumes "own_prop (props_of h f) ''container'' = Ref c"
  shows "ContainerFs_processArguments h f opts id0 = Container_processArguments h c opts id0"
  using assms
  by (simp add: Container_processArguments_def ContainerFs_processArguments_def bind_err_simps)



section \<open>New handles, and the frame of list and create\<close>

lemma merged_handle_fst: "fst (merged_handle h this i conf) = length h"
  by (simp add: merged_handle_def new_Container_def Let_def)

lemma merged_handle_length: "length (snd (merged_handle h this i conf)) = length h + 2"
  by (simp add: merged_handle_def new_Container_def Let_def Object_assign_def)

lemma merged_handle_take: "take (length h) (snd (merged_handle h this i conf)) = h"
  by (simp add: merged_handle_def new_Container_def Let_def Object_assign_def)

lemma list_map_Cons_snd:
  assumes "get_prop h conf ''Id'' = Inr i"
  shows "snd (list_map h this (conf # confs))
           = snd (list_map (snd (merged_handle h this i conf)) this confs)"
  using assms by (simp add: split_beta sum.case_eq_if)

lemma list_map_Cons_fst:
  assumes "get_prop h conf ''Id'' = Inr i"
  shows "fst (list_map h this (conf # confs))
           = map_sum id (\<lambda>cs. Ref (length h) # cs)
               (fst (list_map (snd (merged_handle h this i conf)) this confs))"
  using assms
  by (simp add: split_beta sum.case_eq_if merged_handle_fst map_sum_def split: sum.splits)

lemma take_take_le:
  assumes "n \<le> length h1" and "take (length h1) h2 = h1"
  shows "take n h2 = take n h1"
proof -
  have "take n h2 = take n (take (length h1) h2)"
    using assms(1) by (simp add: min_def)
  then show ?thesis
    by (simp only: assms(2))
qed

text \<open>
  \<^verbatim>\<open>containers.map(...)\<close> leaves every object that was in the heap as it was: the heap it
  returns extends the one it was given.
\<close>

lemma list_map_take: "take (length h) (snd (list_map h this confs)) = h"
proof (induction confs arbitrary: h)
  case Nil
  then show ?case by simp
next
  case (Cons conf confs)
  show ?case
  proof (cases "get_prop h conf ''Id''")
    case (Inl e)
    then show ?thesis by simp
  next
    case (Inr i)
    let ?h1 = "snd (merged_handle h this i conf)"
    have "take (length h) (snd (list_map ?h1 this confs)) = take (length h) ?h1"
      by (rule take_take_le) (simp add: merged_handle_length, rule Cons.IH)
    then show ?thesis
      by (simp only: list_map_Cons_snd [OF Inr] merged_handle_take)
  qed
qed

text \<open>The handles it returns are new: their addresses lie past the heap it was given.\<close>

lemma list_map_fresh:
  "fst (list_map h this confs) = Inr cs \<Longrightarrow> list_all (\<lambda>x. \<exists>a\<ge>length h. x = Ref a) cs"
proof (induction confs arbitrary: h cs)
  case Nil
  then show ?case by simp
next
  case (Cons conf confs)
  show ?case
  proof (cases "get_prop h conf ''Id''")
    case (Inl e)
    with Cons.prems show ?thesis by simp
  next
    case (Inr i)
    let ?h1 = "snd (merged_handle h this i conf)"
    from Cons.prems obtain cs' where
      cs: "cs = Ref (length h) # cs'" and r: "fst (list_map ?h1 this confs) = Inr cs'"
      unfolding list_map_Cons_fst [OF Inr]
      by (cases "fst (list_map ?h1 this confs)") auto
    from Cons.IH [OF r] have "list_all (\<lambda>x. \<exists>a\<ge>length ?h1. x = Ref a) cs'" .
    then have "list_all (\<lambda>x. \<exists>a\<ge>length h. x = Ref a) cs'"
      by (auto simp: list_all_iff merged_handle_length)
    then show ?thesis
      using cs by simp
  qed
qed

lemma Container_create_callback_take:
  "take (length h) (snd (Container_create_callback this err conf h)) = h"
  by (simp add: Container_create_callback_def split_beta sum.case_eq_if merged_handle_take)

lemma Container_list_callback_take:
  "take (length h) (snd (Container_list_callback this err cs h)) = h"
  by (cases cs) (simp_all add: Container_list_callback_def split_beta sum.case_eq_if list_map_take)

lemma new_Promise_heap_take:
  assumes "\<And>err res. take (length h) (snd (cb err res h)) = h"
  shows "take (length h) (snd (new_Promise_heap dial h this c cb)) = h"
  using assms
  by (cases "own_prop (props_of h this) ''modem''") (simp_all add: new_Promise_heap_def split_beta)

text \<open>
  \<^verbatim>\<open>list\<close> and \<^verbatim>\<open>create\<close> leave the handle they are invoked on, and every other object of
  the heap, unchanged, whatever the transport reports.
\<close>

lemma Container_create_frame: "take (length h) (snd (Container_create dial h this opts)) = h"
  unfolding Container_create_def
  by (rule new_Promise_heap_take) (rule Container_create_callback_take)

lemma Container_list_frame: "take (length h) (snd (Container_list dial h this opts)) = h"
  unfolding Container_list_def
  by (rule new_Promise_heap_take) (rule Container_list_callback_take)

text \<open>
  Claim C7 at the failing input: \<^verbatim>\<open>inspect()\<close> on the handle \<^verbatim>\<open>'c0'\<close>, with a transport that
  would report a body. The claim has \<^verbatim>\<open>inspect\<close> resolve with a new handle merged with the
  body; the method raises a TypeError at the destructuring and returns no promise (the
  heap is unchanged, no handle is built).
\<close>

theorem inspect_returns_no_promise:
  "Container_inspect dial_created one_container 0 Undefined Undefined
     = (Inl TypeError, one_container)"
  by (rule Container_inspect_TypeError)

section \<open>The handle that create resolves with\<close>









text \<open>
  The body \<^verbatim>\<open>{ Id: 'abc', __proto__: 'x' }\<close>: the handle gets the attribute \<^verbatim>\<open>Id\<close> and no
  property \<^verbatim>\<open>__proto__\<close>.
\<close>

lemma create_skips_proto_attribute:
  "fst (Container_create dial_proto one_container 0 Undefined)
     = Dialed (Container_create_call Undefined) (Inr [Resolve (Ref 2)]) \<and>
   props_of (snd (Container_create dial_proto one_container 0 Undefined)) 2
     = [(''modem'', Modem), (''id'', Str ''abc''), (''fs'', Ref 3), (''Id'', Str ''abc'')]"
  by (simp add: Container_create_def new_Promise_heap_def Container_create_callback_def
      one_container_props dial_proto_def own_prop_def merged_handle_def new_Container_def
      Object_assign_def set_props_def set_prop_def props_of_def one_container_def)

section \<open>Descriptors that coincide\<close>

lemma dialed_calls_new_Promise_heap:
  "dialed_calls (fst (new_Promise_heap dial h this c cb))
     = (if own_prop (props_of h this) ''modem'' = Modem then [c] else [])"
  by (simp add: new_Promise_heap_def split: jsval.splits prod.splits)

lemma dialed_calls_new_Promise:
  "dialed_calls (new_Promise dial h this c cb)
     = (case own_prop (props_of h this) ''modem'' of Modem \<Rightarrow> [c] | _ \<Rightarrow> [])"
  by (simp add: new_Promise_def split: jsval.splits prod.splits)

text \<open>
  Claim C9. For every option bag, the descriptor of \<^verbatim>\<open>create\<close> has the path
  \<^verbatim>\<open>/containers/json\<close> and the method \<^verbatim>\<open>GET\<close>, as the descriptor of \<^verbatim>\<open>list\<close> has, and the same
  options: the two descriptors differ in their status tables only (and they do differ
  there). On a handle with a transport, \<^verbatim>\<open>create\<close> dials exactly that descriptor, once, and
  \<^verbatim>\<open>list\<close> exactly its own (on a handle without one, neither dials): \<^verbatim>\<open>create\<close> never issues
  a \<^verbatim>\<open>POST\<close>.
\<close>

theorem create_dials_the_list_request:
  "path (Container_create_call opts) = ''/containers/json'' \<and>
   httpMethod (Container_create_call opts) = ''GET'' \<and>
   path (Container_create_call opts) = path (Container_list_call opts) \<and>
   httpMethod (Container_create_call opts) = httpMethod (Container_list_call opts) \<and>
   options (Container_create_call opts) = options (Container_list_call opts) \<and>
   Container_create_call opts
     = (Container_list_call opts)\<lparr>statusCodes := statusCodes (Container_create_call opts)\<rparr> \<and>
   statusCodes (Container_create_call opts) \<noteq> statusCodes (Container_list_call opts) \<and>
   statusCodes (Container_list_call opts)
     = [(200, Bool True), (400, Str ''bad request''), (500, Str ''server error'')] \<and>
   statusCodes (Container_create_call opts)
     = [(200, Bool True), (400, Str ''bad request''), (404, Str ''no such container''),
        (406, Str ''impossible to attach''), (500, Str ''server error'')] \<and>
   dialed_calls (fst (Container_create dial h this opts))
     = (if own_prop (props_of h this) ''modem'' = Modem then [Container_create_call opts]
        else []) \<and>
   dialed_calls (fst (Container_list dial h this opts))
     = (if own_prop (props_of h this) ''modem'' = Modem then [Container_list_call opts]
        else []) \<and>
   set (dialed_calls (fst (Container_create dial h this opts))) \<subseteq> {Container_create_call opts} \<and>
   set (dialed_calls (fst (Container_list dial h this opts))) \<subseteq> {Container_list_call opts} \<and>
   httpMethod (Container_create_call opts) \<noteq> ''POST''"
  by (simp add: Container_create_call_def Container_list_call_def Container_create_def
      Container_list_def dialed_calls_new_Promise_heap)

text \<open>\<^verbatim>\<open>create()\<close> and \<^verbatim>\<open>list()\<close> on the handle \<^verbatim>\<open>'c0'\<close>, which has a transport.\<close>

theorem create_dials_the_list_request_witness:
  "dialed_calls (fst (Container_create dial_created one_container 0 Undefined))
     = [Container_create_call Undefined] \<and>
   dialed_calls (fst (Container_list dial_created one_container 0 Undefined))
     = [Container_list_call Undefined] \<and>
   path (Container_create_call Undefined) = ''/containers/json'' \<and>
   httpMethod (Container_create_call Undefined) = ''GET''"
  using create_dials_the_list_request [of Undefined dial_created one_container 0]
  by (simp add: one_container_props)

lemma stats_export_rest_calls:
  "map_sum id dialed_calls (Container_stats_rest dial h this r)
     = map_sum id dialed_calls (Container_export_rest dial h this r)"
  by (cases "destructure2 r")
     (auto simp: Container_stats_rest_def Container_export_rest_def bind_err_simps
        dialed_calls_new_Promise Container_stats_call_def Container_export_call_def)

lemma export_callback_streaming_eq:
  assumes "get_prop h opts ''stream'' = Inr flag" and "truthy flag"
  shows "Container_export_callback h opts = settle_with"
  using assms
  by (intro ext) (simp add: Container_export_callback_def settle_with_def bind_err_simps)

lemma stats_export_rest_streaming:
  assumes "get_prop h opts ''stream'' = Inr flag \<and> truthy flag"
  shows "Container_export_rest dial h this (Arr [opts, id1])
           = Container_stats_rest dial h this (Arr [opts, id1])"
  using assms
  by (simp add: Container_stats_rest_def Container_export_rest_def bind_err_simps
      destructure2_Arr2 Container_stats_call_def Container_export_call_def
      export_callback_streaming_eq [of h opts flag])

text \<open>
  As written, the descriptor of \<^verbatim>\<open>stats\<close> is the descriptor of \<^verbatim>\<open>export\<close>, for every resolved
  \<^verbatim>\<open>(opts, id)\<close>: the path \<^verbatim>\<open>/containers/${id}/export\<close>, the method \<^verbatim>\<open>GET\<close>, the same status
  table.
\<close>

lemma stats_call_is_export_call:
  "Container_stats_call opts id1 = Container_export_call opts id1"
  "path (Container_stats_call opts id1) = ''/containers/'' @ to_string id1 @ ''/export''"
  "httpMethod (Container_stats_call opts id1) = ''GET''"
  "statusCodes (Container_stats_call opts id1)
     = [(200, Bool True), (404, Str ''no such container''), (500, Str ''server error'')]"
  by (simp_all add: Container_stats_call_def Container_export_call_def)

text \<open>
  Claim C10 at the failing input: \<^verbatim>\<open>stats()\<close> and \<^verbatim>\<open>export()\<close> on the handle \<^verbatim>\<open>'c0'\<close>, with a
  transport that would report a stream. The claim has the two operations send the same
  request and differ only in that \<^verbatim>\<open>export\<close> may buffer. Both raise a TypeError at the
  destructuring: neither builds its descriptor or sends a request. And from the resolved
  \<^verbatim>\<open>(undefined, 'c0')\<close> on, \<^verbatim>\<open>stats\<close> would resolve with the stream, while the callback of
  \<^verbatim>\<open>export\<close> raises a TypeError at \<^verbatim>\<open>opts.stream\<close>: it neither streams nor buffers.
\<close>

theorem stats_and_export_without_options:
  "Container_stats dial_stream one_container 0 Undefined Undefined = Inl TypeError \<and>
   Container_export dial_stream one_container 0 Undefined Undefined = Inl TypeError \<and>
   Container_stats_rest dial_stream one_container 0 (Arr [Undefined, Str ''c0''])
     = Inr (Dialed (Container_stats_call Undefined (Str ''c0''))
              (Inr [Resolve (Stream [Data ''ab'', Data ''cd'', End])])) \<and>
   Container_export_rest dial_stream one_container 0 (Arr [Undefined, Str ''c0''])
     = Inr (Dialed (Container_export_call Undefined (Str ''c0'')) (Inl TypeError))"
  by (simp add: Container_stats_TypeError Container_export_TypeError Container_stats_rest_def
      Container_export_rest_def destructure2_Arr2 bind_err_simps new_Promise_def
      one_container_props dial_stream_def settle_with_def Container_export_callback_def)

section \<open>Settlement and the result of export\<close>

text \<open>
  The two common callbacks call exactly one of \<^verbatim>\<open>resolve\<close> and \<^verbatim>\<open>reject\<close>, once: \<^verbatim>\<open>reject\<close>
  with the error when there is one, \<^verbatim>\<open>resolve\<close> otherwise.
\<close>

lemma settle_with_once:
  "settle_with err x = Inr [if truthy err then Reject err else Resolve x]"
  by (simp add: settle_with_def)

lemma settle_void_once:
  "settle_void err x = Inr [if truthy err then Reject err else Resolve Undefined]"
  by (simp add: settle_void_def)

text \<open>
  \<^verbatim>\<open>list\<close> and \<^verbatim>\<open>create\<close>, which do not call the helper: on a handle with a transport they
  reject once with the error that \<^verbatim>\<open>dial\<close> reports, and \<^verbatim>\<open>list\<close> resolves once, with one
  handle for each element of the body, when \<^verbatim>\<open>dial\<close> reports an array of elements other
  than \<^verbatim>\<open>undefined\<close> and \<^verbatim>\<open>null\<close>.
\<close>

lemma Container_create_rejects:
  assumes "own_prop (props_of h this) ''modem'' = Modem"
    and "dial (Container_create_call opts) = (err, res)" and "truthy err"
  shows "Container_create dial h this opts
           = (Dialed (Container_create_call opts) (Inr [Reject err]), h)"
  using assms
  by (simp add: Container_create_def new_Promise_heap_def Container_create_callback_def)

lemma Container_list_rejects:
  assumes "own_prop (props_of h this) ''modem'' = Modem"
    and "dial (Container_list_call opts) = (err, res)" and "truthy err"
  shows "Container_list dial h this opts
           = (Dialed (Container_list_call opts) (Inr [Reject err]), h)"
  using assms
  by (simp add: Container_list_def new_Promise_heap_def Container_list_callback_def)

lemma list_map_resolves:
  assumes "list_all (\<lambda>conf. conf \<noteq> Undefined \<and> conf \<noteq> Null) confs"
  shows "\<exists>cs. fst (list_map h this confs) = Inr cs \<and> length cs = length confs"
  using assms
proof (induction confs arbitrary: h)
  case Nil
  then show ?case by simp
next
  case (Cons conf confs)
  from Cons.prems have "conf \<noteq> Undefined" "conf \<noteq> Null" by simp_all
  then obtain i where i: "get_prop h conf ''Id'' = Inr i"
    by (cases conf) simp_all
  from Cons.prems have "list_all (\<lambda>conf. conf \<noteq> Undefined \<and> conf \<noteq> Null) confs" by simp
  from Cons.IH [OF this, of "snd (merged_handle h this i conf)"] obtain cs where
    "fst (list_map (snd (merged_handle h this i conf)) this confs) = Inr cs"
    "length cs = length confs" by blast
  then show ?case
    by (simp del: list_map.simps add: list_map_Cons_fst [OF i])
qed

lemma Container_list_resolves:
  assumes "own_prop (props_of h this) ''modem'' = Modem"
    and "dial (Container_list_call opts) = (err, Arr confs)" and "\<not> truthy err"
    and "list_all (\<lambda>conf. conf \<noteq> Undefined \<and> conf \<noteq> Null) confs"
  shows "\<exists>cs. fst (Container_list dial h this opts)
                 = Dialed (Container_list_call opts) (Inr [Resolve (Arr cs)]) \<and>
              length cs = length confs"
proof -
  from list_map_resolves [OF assms(4), of h this] obtain cs where
    cs: "fst (list_map h this confs) = Inr cs" "length cs = length confs" by blast
  then obtain h' where "list_map h this confs = (Inr cs, h')"
    by (cases "list_map h this confs") simp
  then show ?thesis
    using assms(1-3) cs(2)
    by (simp add: Container_list_def new_Promise_heap_def Container_list_callback_def)
qed

text \<open>
  Claim C4 at the failing input: \<^verbatim>\<open>start()\<close> on the handle \<^verbatim>\<open>'c0'\<close>, with a transport that
  would report success. The claim has the promise of every operation settle exactly
  once; the method raises a TypeError at the destructuring, returns no promise and calls
  neither \<^verbatim>\<open>dial\<close> nor \<^verbatim>\<open>resolve\<close> nor \<^verbatim>\<open>reject\<close>.
\<close>

theorem start_returns_no_promise:
  "Container_start dial_success one_container 0 Undefined Undefined = Inl TypeError"
  by (rule Container_start_TypeError)

text \<open>
  The callback of \<^verbatim>\<open>export\<close>, had it been reached: with the flag set it resolves with the
  stream as it is; without the flag it resolves, when the stream ends, with the
  concatenated chunks, and not at all when the stream does not end; with no option bag
  at all, \<^verbatim>\<open>opts.stream\<close> raises a TypeError.
\<close>

lemma buffer_events_ended:
  "buffer_events (map Data chunks @ [End]) res = [Resolve (Str (concat (res @ chunks)))]"
  by (induction chunks arbitrary: res) simp_all

lemma buffer_events_not_ended: "buffer_events (map Data chunks) res = []"
  by (induction chunks arbitrary: res) simp_all

lemma export_callback_streaming:
  assumes "\<not> truthy err" and "get_prop h opts ''stream'' = Inr flag" and "truthy flag"
  shows "Container_export_callback h opts err tarStream = Inr [Resolve tarStream]"
  using assms by (simp add: Container_export_callback_def bind_err_simps)

lemma export_callback_buffered:
  assumes "\<not> truthy err" and "get_prop h opts ''stream'' = Inr flag" and "\<not> truthy flag"
  shows "Container_export_callback h opts err (Stream (map Data chunks @ [End]))
           = Inr [Resolve (Str (concat chunks))]"
  using assms by (simp add: Container_export_callback_def bind_err_simps buffer_events_ended)

lemma export_callback_never_ends:
  assumes "\<not> truthy err" and "get_prop h opts ''stream'' = Inr flag" and "\<not> truthy flag"
  shows "Container_export_callback h opts err (Stream (map Data chunks)) = Inr []"
  using assms by (simp add: Container_export_callback_def bind_err_simps buffer_events_not_ended)

lemma export_callback_no_opts:
  assumes "\<not> truthy err"
  shows "Container_export_callback h Undefined err tarStream = Inl TypeError"
  using assms by (simp add: Container_export_callback_def bind_err_simps)

text \<open>
  Claim C5 at the failing input: \<^verbatim>\<open>export({ stream: true })\<close> on the handle \<^verbatim>\<open>'c0'\<close>, with a
  transport that would report a stream. The claim has \<^verbatim>\<open>export\<close> resolve with the stream;
  the method raises a TypeError at the destructuring, before it reads the flag, and
  returns no promise.
\<close>

theorem export_streaming_returns_no_promise:
  "Container_export dial_stream one_container 0 (Obj [(''stream'', Bool True)]) Undefined
     = Inl TypeError"
  by (rule Container_export_TypeError)

end
